theory Spec2Isabelle
  imports
    Complex_Main
    "HOL-Library.Finite_Map"
    "HOL-Library.Char_ord"
    "HOL-Library.List_Lexorder"
begin

section \<open>Python values\<close>

text \<open>
  Both scripts handle decoded JSON (and YAML) documents: \<^verbatim>\<open>None\<close>, booleans, integers,
  floats, strings, lists and dictionaries with string keys. A dictionary is a finite map,
  so that equality of two values is Python's equality of dictionaries (the order of the keys
  plays no part). A float is carried as the rational it denotes; neither script computes
  with one. Strings are byte strings.
\<close>

datatype pyval =
    PNone
  | PBool bool
  | PInt int
  | PFloat rat
  | PStr string
  | PList "pyval list"
  | PDict "(string, pyval) fmap"

text \<open>The exceptions either script can end with; each is a value of the model.\<close>

datatype error =
    FileNotFoundError
  | OSError
  | YAMLError
  | ValueError
  | AttributeError
  | TypeError
  | KeyError
  | TransportError
  | HTTPStatusError nat
  | JSONDecodeError
  | SystemExit nat

text \<open>\<^verbatim>\<open>d.get(k)\<close> and \<^verbatim>\<open>d.get(k, default)\<close> on a dictionary.\<close>

definition dict_get :: "(string, pyval) fmap \<Rightarrow> string \<Rightarrow> pyval \<Rightarrow> pyval" where
  "dict_get d k dflt = (case fmlookup d k of None \<Rightarrow> dflt | Some v \<Rightarrow> v)"

text \<open>
  \<^verbatim>\<open>f.get(k, default)\<close> on any value: only a dictionary has the method, every other value
  raises \<^verbatim>\<open>AttributeError\<close>.
\<close>

definition py_get :: "pyval \<Rightarrow> string \<Rightarrow> pyval \<Rightarrow> error + pyval" where
  "py_get f k dflt = (case f of PDict d \<Rightarrow> Inr (dict_get d k dflt) | _ \<Rightarrow> Inl AttributeError)"

text \<open>
  \<^verbatim>\<open>for f in x\<close>: a list yields its items, a string its characters (each a string), a
  dictionary its keys; the other values are not iterable. The finite map keeps no insertion
  order, so the keys come sorted; every loop below calls \<^verbatim>\<open>.get\<close> on each item, which raises on
  the first key whichever it is.
\<close>

definition py_iter :: "pyval \<Rightarrow> error + pyval list" where
  "py_iter x =
     (case x of
        PList xs \<Rightarrow> Inr xs
      | PStr s \<Rightarrow> Inr (map (\<lambda>c. PStr [c]) s)
      | PDict d \<Rightarrow> Inr (map PStr (sorted_list_of_fset (fmdom d)))
      | _ \<Rightarrow> Inl TypeError)"

text \<open>\<^verbatim>\<open>x in (s1, s2, ...)\<close> for a tuple of strings: only an equal string is a member.\<close>

definition py_in :: "pyval \<Rightarrow> string list \<Rightarrow> bool" where
  "py_in x ss = (case x of PStr s \<Rightarrow> s \<in> set ss | _ \<Rightarrow> False)"

text \<open>\<^verbatim>\<open>[f.get(k) for f in fs]\<close>: the first item without the method ends the loop.\<close>

fun get_each :: "string \<Rightarrow> pyval list \<Rightarrow> error + pyval list" where
  "get_each k [] = Inr []"
| "get_each k (f # fs) =
     (case py_get f k PNone of
        Inl e \<Rightarrow> Inl e
      | Inr v \<Rightarrow> (case get_each k fs of Inl e \<Rightarrow> Inl e | Inr vs \<Rightarrow> Inr (v # vs)))"

section \<open>The update script: feature merge\<close>

text \<open>
  \<^verbatim>\<open>
  SHORT_TERM_MEMORY_CONFIG = {
      "type": "SHORT_TERM_MEMORY",
      "config": {"message_count": 20},
      "priority": 0
  }
  \<close>
\<close>

definition SHORT_TERM_MEMORY_CONFIG :: pyval where
  "SHORT_TERM_MEMORY_CONFIG =
     PDict (fmap_of_list
       [(''type'', PStr ''SHORT_TERM_MEMORY''),
        (''config'', PDict (fmap_of_list [(''message_count'', PInt 20)])),
        (''priority'', PInt 0)])"

definition MEMORY_TYPES :: "string list" where
  "MEMORY_TYPES = [''memory'', ''SHORT_TERM_MEMORY'', ''STRUCTURED_MEMORY'']"

text \<open>
  The comprehension of \<^verbatim>\<open>ensure_short_term_memory\<close>:
  \<^verbatim>\<open>[f for f in features if f.get("type") not in ("memory", "SHORT_TERM_MEMORY", "STRUCTURED_MEMORY")]\<close>
  over the items already drawn from \<^verbatim>\<open>features\<close>.
\<close>

fun keep_non_memory :: "pyval list \<Rightarrow> error + pyval list" where
  "keep_non_memory [] = Inr []"
| "keep_non_memory (f # fs) =
     (case py_get f ''type'' PNone of
        Inl e \<Rightarrow> Inl e
      | Inr t \<Rightarrow>
          (case keep_non_memory fs of
             Inl e \<Rightarrow> Inl e
           | Inr kept \<Rightarrow> Inr (if \<not> py_in t MEMORY_TYPES then f # kept else kept)))"

text \<open>
  \<^verbatim>\<open>
  def ensure_short_term_memory(features: list) -> list:
      features = [f for f in features if f.get("type") not in (...)]
      features.append(SHORT_TERM_MEMORY_CONFIG)
      return features
  \<close>
  The value view: what the returned list holds.
\<close>

definition ensure_short_term_memory :: "pyval \<Rightarrow> error + pyval list" where
  "ensure_short_term_memory features =
     (case py_iter features of
        Inl e \<Rightarrow> Inl e
      | Inr fs \<Rightarrow>
          (case keep_non_memory fs of
             Inl e \<Rightarrow> Inl e
           | Inr kept \<Rightarrow> Inr (kept @ [SHORT_TERM_MEMORY_CONFIG])))"

text \<open>
  The words of the specification: a feature entry is a dictionary, and it is of a memory
  kind when its \<^verbatim>\<open>type\<close> is one of the three memory discriminants.
\<close>

definition is_dict :: "pyval \<Rightarrow> bool" where
  "is_dict f = (case f of PDict d \<Rightarrow> True | _ \<Rightarrow> False)"

definition memory_kind :: "pyval \<Rightarrow> bool" where
  "memory_kind f =
     (case f of
        PDict d \<Rightarrow>
          (case fmlookup d ''type'' of
             Some (PStr s) \<Rightarrow> s = ''memory'' \<or> s = ''SHORT_TERM_MEMORY'' \<or> s = ''STRUCTURED_MEMORY''
           | _ \<Rightarrow> False)
      | _ \<Rightarrow> False)"

section \<open>The world of a run and its trace\<close>

text \<open>
  What a script finds outside itself: the environment variable, the directory three levels
  above the script file, the declarative YAML file, and the remote service. The service
  answers the last request of the list of all requests sent so far. A response carries its
  status code, its raw body, and the body decoded as JSON when it is JSON.
\<close>

datatype file_state = Missing | Unreadable | Malformed | Document pyval

datatype http_method = GET | PUT | POST

record request =
  verb :: http_method
  url :: string
  x_api_key :: string
  json_body :: "pyval option"

record response =
  status_code :: nat
  resp_text :: string
  resp_json :: "pyval option"

datatype http_outcome = NoResponse | Returned response

record world =
  LYZR_API_KEY :: "string option"
  repo_root :: string
  yaml_file :: file_state
  server :: "request list \<Rightarrow> http_outcome"

text \<open>
  What a run does, in order: the lines it prints and the requests it sends. A printed line
  is the pieces of its f-string: literal text and interpolated values.
\<close>

datatype piece = Lit string | Fmt pyval

datatype event = Print "piece list" | Send request

fun requests_of :: "event list \<Rightarrow> request list" where
  "requests_of [] = []"
| "requests_of (Print ps # t) = requests_of t"
| "requests_of (Send r # t) = r # requests_of t"

text \<open>
  A statement sequence takes the trace so far and returns the trace extended, with the value
  computed or the exception that ended the run.
\<close>

type_synonym 'a run = "event list \<Rightarrow> event list \<times> (error + 'a)"

definition ret :: "'a \<Rightarrow> 'a run" where
  "ret x t = (t, Inr x)"

definition raise :: "error \<Rightarrow> 'a run" where
  "raise e t = (t, Inl e)"

definition lift :: "error + 'a \<Rightarrow> 'a run" where
  "lift r t = (t, r)"

definition bind_run :: "'a run \<Rightarrow> ('a \<Rightarrow> 'b run) \<Rightarrow> 'b run" where
  "bind_run m f t = (case m t of (t', Inl e) \<Rightarrow> (t', Inl e) | (t', Inr x) \<Rightarrow> f x t')"

definition seq_run :: "unit run \<Rightarrow> 'b run \<Rightarrow> 'b run" where
  "seq_run m n = bind_run m (\<lambda>_. n)"

definition print :: "piece list \<Rightarrow> unit run" where
  "print ps t = (t @ [Print ps], Inr ())"

definition send :: "world \<Rightarrow> request \<Rightarrow> http_outcome run" where
  "send w r t = (t @ [Send r], Inr (server w (requests_of (t @ [Send r]))))"

text \<open>
  The exit status of the Python process: 0 when the script runs to its end, the code of
  \<^verbatim>\<open>sys.exit\<close>, and 1 for any other uncaught exception.
\<close>

definition exit_status :: "error + 'a \<Rightarrow> nat" where
  "exit_status r = (case r of Inr _ \<Rightarrow> 0 | Inl (SystemExit n) \<Rightarrow> n | Inl _ \<Rightarrow> 1)"

section \<open>More of Python's operations on values\<close>

text \<open>\<^verbatim>\<open>x[k]\<close> with a string key: \<^verbatim>\<open>KeyError\<close> on a dictionary without it, \<^verbatim>\<open>TypeError\<close> elsewhere.\<close>

definition py_getitem :: "pyval \<Rightarrow> string \<Rightarrow> error + pyval" where
  "py_getitem x k =
     (case x of
        PDict d \<Rightarrow> (case fmlookup d k of None \<Rightarrow> Inl KeyError | Some v \<Rightarrow> Inr v)
      | _ \<Rightarrow> Inl TypeError)"

text \<open>\<^verbatim>\<open>x.items()\<close>: the entries of a dictionary.\<close>

definition py_items :: "pyval \<Rightarrow> error + (string, pyval) fmap" where
  "py_items x = (case x of PDict d \<Rightarrow> Inr d | _ \<Rightarrow> Inl AttributeError)"

text \<open>\<^verbatim>\<open>len(x)\<close>.\<close>

definition py_len :: "pyval \<Rightarrow> error + pyval" where
  "py_len x =
     (case x of
        PStr s \<Rightarrow> Inr (PInt (int (length s)))
      | PList xs \<Rightarrow> Inr (PInt (int (length xs)))
      | PDict d \<Rightarrow> Inr (PInt (int (fcard (fmdom d))))
      | _ \<Rightarrow> Inl TypeError)"

text \<open>The truth value of \<^verbatim>\<open>x\<close> in \<^verbatim>\<open>if not x\<close>.\<close>

definition py_truthy :: "pyval \<Rightarrow> bool" where
  "py_truthy x =
     (case x of
        PNone \<Rightarrow> False
      | PBool b \<Rightarrow> b
      | PInt i \<Rightarrow> i \<noteq> 0
      | PFloat r \<Rightarrow> r \<noteq> 0
      | PStr s \<Rightarrow> s \<noteq> []
      | PList xs \<Rightarrow> xs \<noteq> []
      | PDict d \<Rightarrow> fmdom d \<noteq> {||})"

text \<open>\<^verbatim>\<open>[f.get('type') for f in x]\<close>, as the progress lines print it.\<close>

definition feature_types :: "pyval \<Rightarrow> error + pyval" where
  "feature_types x =
     (case py_iter x of
        Inl e \<Rightarrow> Inl e
      | Inr fs \<Rightarrow> (case get_each ''type'' fs of Inl e \<Rightarrow> Inl e | Inr ts \<Rightarrow> Inr (PList ts)))"

section \<open>The update script\<close>

definition AGENT_ID :: string where
  "AGENT_ID = ''695aad9ba45696ac999e18cf''"

text \<open>
  \<^verbatim>\<open>API_KEY = os.environ.get("LYZR_API_KEY", "sk-default-...")\<close>. The default is a literal of the
  script; it has the shape of a secret, so its characters after the prefix are left out here.
  No property below depends on them.
\<close>

definition DEFAULT_API_KEY :: string where
  "DEFAULT_API_KEY = ''sk-default-(elided)''"

definition API_KEY :: "world \<Rightarrow> string" where
  "API_KEY w = (case LYZR_API_KEY w of None \<Rightarrow> DEFAULT_API_KEY | Some k \<Rightarrow> k)"

definition BASE_URL :: string where
  "BASE_URL = ''https://agent-prod.studio.lyzr.ai''"

definition YAML_PATH :: "world \<Rightarrow> string" where
  "YAML_PATH w = repo_root w @ ''/blueprints/local/agents/builder-manager.yaml''"

text \<open>
  \<^verbatim>\<open>
  def load_system_prompt_from_yaml() -> str:
      if not YAML_PATH.exists():
          raise FileNotFoundError(...)
      with open(YAML_PATH) as f:
          data = yaml.safe_load(f)
      instructions = data.get("spec", {}).get("instructions", "")
      if not instructions:
          raise ValueError("No instructions found in YAML file")
      return instructions
  \<close>
\<close>

definition load_system_prompt_from_yaml :: "world \<Rightarrow> error + pyval" where
  "load_system_prompt_from_yaml w =
     (case yaml_file w of
        Missing \<Rightarrow> Inl FileNotFoundError
      | Unreadable \<Rightarrow> Inl OSError
      | Malformed \<Rightarrow> Inl YAMLError
      | Document data \<Rightarrow>
          (case py_get data ''spec'' (PDict fmempty) of
             Inl e \<Rightarrow> Inl e
           | Inr spec \<Rightarrow>
               (case py_get spec ''instructions'' (PStr []) of
                  Inl e \<Rightarrow> Inl e
                | Inr instructions \<Rightarrow>
                    if \<not> py_truthy instructions then Inl ValueError else Inr instructions)))"

text \<open>
  The two calls of the HTTP client share their end: a transport failure raises,
  \<^verbatim>\<open>response.raise_for_status()\<close> raises unless the status is 2xx, and \<^verbatim>\<open>response.json()\<close>
  raises when the body is not JSON.
\<close>

definition raise_for_status :: "response \<Rightarrow> error + response" where
  "raise_for_status r =
     (if 200 \<le> status_code r \<and> status_code r < 300 then Inr r
      else Inl (HTTPStatusError (status_code r)))"

definition response_json :: "response \<Rightarrow> error + pyval" where
  "response_json r = (case resp_json r of None \<Rightarrow> Inl JSONDecodeError | Some v \<Rightarrow> Inr v)"

definition checked_json :: "http_outcome \<Rightarrow> error + pyval" where
  "checked_json out =
     (case out of
        NoResponse \<Rightarrow> Inl TransportError
      | Returned r \<Rightarrow> (case raise_for_status r of Inl e \<Rightarrow> Inl e | Inr r' \<Rightarrow> response_json r'))"

text \<open>
  \<^verbatim>\<open>
  def get_current_agent():
      response = httpx.get(f"{BASE_URL}/v3/agents/{AGENT_ID}",
                           headers={"X-API-Key": API_KEY, ...}, timeout=30.0)
      response.raise_for_status()
      return response.json()
  \<close>
\<close>

definition get_request :: "world \<Rightarrow> request" where
  "get_request w =
     \<lparr>verb = GET, url = BASE_URL @ ''/v3/agents/'' @ AGENT_ID,
      x_api_key = API_KEY w, json_body = None\<rparr>"

definition get_current_agent :: "world \<Rightarrow> pyval run" where
  "get_current_agent w = bind_run (send w (get_request w)) (\<lambda>out. lift (checked_json out))"

text \<open>
  \<^verbatim>\<open>
  def update_agent(payload):
      response = httpx.put(f"{BASE_URL}/v3/agents/{AGENT_ID}",
                           headers={"X-API-Key": API_KEY, ...}, json=payload, timeout=30.0)
      response.raise_for_status()
      return response.json()
  \<close>
\<close>

definition put_request :: "world \<Rightarrow> pyval \<Rightarrow> request" where
  "put_request w payload =
     \<lparr>verb = PUT, url = BASE_URL @ ''/v3/agents/'' @ AGENT_ID,
      x_api_key = API_KEY w, json_body = Some payload\<rparr>"

definition update_agent :: "world \<Rightarrow> pyval \<Rightarrow> pyval run" where
  "update_agent w payload =
     bind_run (send w (put_request w payload)) (\<lambda>out. lift (checked_json out))"

text \<open>
  The block of \<^verbatim>\<open>main\<close> that prepares the update payload:
  \<^verbatim>\<open>
  readonly_fields = ['_id', 'created_at', 'updated_at', 'api_key', 'version']
  payload = {k: v for k, v in current.items() if k not in readonly_fields}
  payload['response_format'] = {"type": "json_object"}
  payload['agent_instructions'] = system_prompt
  payload['features'] = ensure_short_term_memory(payload.get('features', []))
  \<close>
\<close>

definition readonly_fields :: "string list" where
  "readonly_fields = [''_id'', ''created_at'', ''updated_at'', ''api_key'', ''version'']"

definition merge_payload :: "(string, pyval) fmap \<Rightarrow> pyval \<Rightarrow> error + (string, pyval) fmap" where
  "merge_payload current system_prompt =
     (let payload = fmfilter (\<lambda>k. k \<notin> set readonly_fields) current;
          payload = fmupd ''response_format'' (PDict (fmap_of_list [(''type'', PStr ''json_object'')])) payload;
          payload = fmupd ''agent_instructions'' system_prompt payload
      in case ensure_short_term_memory (dict_get payload ''features'' (PList [])) of
           Inl e \<Rightarrow> Inl e
         | Inr features \<Rightarrow> Inr (fmupd ''features'' (PList features) payload))"

text \<open>\<^verbatim>\<open>any(f.get('type') == 'SHORT_TERM_MEMORY' for f in fs)\<close>: stops at the first match.\<close>

fun any_short_term_memory :: "pyval list \<Rightarrow> error + bool" where
  "any_short_term_memory [] = Inr False"
| "any_short_term_memory (f # fs) =
     (case py_get f ''type'' PNone of
        Inl e \<Rightarrow> Inl e
      | Inr t \<Rightarrow> if t = PStr ''SHORT_TERM_MEMORY'' then Inr True else any_short_term_memory fs)"

fun prints :: "piece list list \<Rightarrow> unit run" where
  "prints [] = ret ()"
| "prints (l # ls) = seq_run (print l) (prints ls)"

definition WARNING_response_format :: "piece list" where
  "WARNING_response_format =
     [Lit (CHR 0x0A # CHR 0xE2 # CHR 0x9D # CHR 0x8C
           # '' WARNING: response_format may not have updated correctly'')]"

definition WARNING_short_term_memory :: "piece list" where
  "WARNING_short_term_memory =
     [Lit (CHR 0x0A # CHR 0xE2 # CHR 0x9D # CHR 0x8C
           # '' WARNING: SHORT_TERM_MEMORY feature may not have been added'')]"

definition SUCCESS_line :: "piece list" where
  "SUCCESS_line =
     [Lit (CHR 0x0A # CHR 0xE2 # CHR 0x9C # CHR 0x85
           # '' SUCCESS: Agent updated with JSON output mode and SHORT_TERM_MEMORY!'')]"

text \<open>
  \<^verbatim>\<open>main\<close>, in the five steps its comments and progress lines number. Step 5, the
  verification: the flag \<^verbatim>\<open>success\<close> starts true, each failed check prints its warning and
  clears it, and the flag decides only whether the success line is printed. Nothing is
  raised and \<^verbatim>\<open>sys.exit\<close> is not called: the script does not import \<^verbatim>\<open>sys\<close>.
\<close>

definition main_verify :: "world \<Rightarrow> unit run" where
  "main_verify w =
     seq_run (print [Lit ''\<newline>5. Verifying update...''])
    (bind_run (get_current_agent w) (\<lambda>updated.
     bind_run (lift (py_get updated ''response_format'' PNone)) (\<lambda>rf.
     seq_run (print [Lit ''   response_format: '', Fmt rf])
    (bind_run (lift (py_get updated ''features'' (PList []))) (\<lambda>fs.
     bind_run (lift (feature_types fs)) (\<lambda>ts.
     seq_run (print [Lit ''   features: '', Fmt ts])
    (bind_run (lift (py_get updated ''response_format'' (PDict fmempty))) (\<lambda>rf'.
     bind_run (lift (py_get rf' ''type'' PNone)) (\<lambda>t.
     bind_run (if t \<noteq> PStr ''json_object''
               then seq_run (print WARNING_response_format) (ret False)
               else ret True) (\<lambda>success.
     bind_run (lift (py_get updated ''features'' (PList []))) (\<lambda>fs'.
     bind_run (lift (py_iter fs')) (\<lambda>items.
     bind_run (lift (any_short_term_memory items)) (\<lambda>has_short_term_memory.
     bind_run (if \<not> has_short_term_memory
               then seq_run (print WARNING_short_term_memory) (ret False)
               else ret success) (\<lambda>success.
     seq_run (if success then print SUCCESS_line else ret ())
             (print [Lit (CHR 0x0A # replicate 60 CHR ''='')])))))))))))))))"

text \<open>Steps 3 and 4: the progress lines, the update request, its report.\<close>

definition main_update :: "world \<Rightarrow> (string, pyval) fmap \<Rightarrow> unit run" where
  "main_update w payload =
     seq_run (print [Lit ''\<newline>3. Updating agent...''])
    (bind_run (lift (py_getitem (PDict payload) ''response_format'')) (\<lambda>rf.
     seq_run (print [Lit ''   response_format: '', Fmt rf])
    (bind_run (lift (py_getitem (PDict payload) ''features'')) (\<lambda>fs.
     bind_run (lift (feature_types fs)) (\<lambda>ts.
     seq_run (print [Lit ''   features: '', Fmt ts])
    (bind_run (update_agent w (PDict payload)) (\<lambda>result.
     seq_run (print [Lit ''\<newline>4. Update successful!''])
    (bind_run (lift (py_get result ''updated_at'' (PStr ''N/A''))) (\<lambda>updated_at.
     seq_run (print [Lit ''   Updated at: '', Fmt updated_at])
             (main_verify w))))))))))"

text \<open>Step 2 and the payload: the fetch, its report, the merge.\<close>

definition main_fetch :: "world \<Rightarrow> pyval \<Rightarrow> unit run" where
  "main_fetch w system_prompt =
     seq_run (print [Lit ''\<newline>2. Fetching current agent configuration...''])
    (bind_run (get_current_agent w) (\<lambda>current.
     bind_run (lift (py_getitem current ''name'')) (\<lambda>name.
     seq_run (print [Lit ''   Agent: '', Fmt name])
    (bind_run (lift (py_get current ''response_format'' PNone)) (\<lambda>rf.
     seq_run (print [Lit ''   Current response_format: '', Fmt rf])
    (bind_run (lift (py_get current ''features'' (PList []))) (\<lambda>fs.
     bind_run (lift (feature_types fs)) (\<lambda>ts.
     seq_run (print [Lit ''   Current features: '', Fmt ts])
    (bind_run (lift (py_items current)) (\<lambda>items.
     bind_run (lift (merge_payload items system_prompt)) (\<lambda>payload.
     main_update w payload)))))))))))"

text \<open>The banner, step 1, and the rest.\<close>

definition main :: "world \<Rightarrow> unit run" where
  "main w =
     seq_run (prints
       [[Lit (replicate 60 CHR ''='')],
        [Lit ''Updating Blueprint Builder Agent''],
        [Lit ''  - JSON Output Mode''],
        [Lit ''  - SHORT_TERM_MEMORY (20 messages)''],
        [Lit (replicate 60 CHR ''='')],
        [Lit ''\<newline>1. Loading system prompt from YAML...''],
        [Lit ''   Path: '', Lit (YAML_PATH w)]])
    (bind_run (lift (load_system_prompt_from_yaml w)) (\<lambda>system_prompt.
     bind_run (lift (py_len system_prompt)) (\<lambda>n.
     seq_run (print [Lit ''   Loaded '', Fmt n, Lit '' characters''])
             (main_fetch w system_prompt))))"

text \<open>Running the script: \<^verbatim>\<open>main()\<close> from an empty trace.\<close>

definition update_script :: "world \<Rightarrow> event list \<times> (error + unit)" where
  "update_script w = main w []"

section \<open>The update script: the list objects of the feature merge\<close>

text \<open>
  Whether \<^verbatim>\<open>ensure_short_term_memory\<close> changes the list it is given is a question about
  objects, not values. A heap holds the list objects by address; \<open>top\<close> is the next free
  address. The comprehension builds a new list object and rebinds the local name
  \<^verbatim>\<open>features\<close> to it; \<^verbatim>\<open>append\<close> then changes the object the name refers to. An exception in
  the comprehension leaves the heap as it was.
\<close>

record heap =
  cells :: "nat \<Rightarrow> pyval list"
  top :: nat

definition ensure_short_term_memory_heap :: "heap \<Rightarrow> nat \<Rightarrow> heap \<times> (error + nat)" where
  "ensure_short_term_memory_heap h features =
     (case keep_non_memory (cells h features) of
        Inl e \<Rightarrow> (h, Inl e)
      | Inr kept \<Rightarrow>
          (let features' = top h;
               h1 = h\<lparr>cells := (cells h)(features' := kept), top := Suc (top h)\<rparr>;
               h2 = h1\<lparr>cells := (cells h1)(features' := cells h1 features' @ [SHORT_TERM_MEMORY_CONFIG])\<rparr>
           in (h2, Inr features')))"

section \<open>The creation script\<close>

definition AGENT_API_URL :: string where
  "AGENT_API_URL = ''https://agent-prod.studio.lyzr.ai''"

text \<open>A triple-quoted literal: its lines, with a newline between each two.\<close>

fun join_lines :: "string list \<Rightarrow> string" where
  "join_lines [] = []"
| "join_lines [l] = l"
| "join_lines (l # ls) = l @ CHR 0x0A # join_lines ls"

definition agent_instructions_lines :: "string list" where
  "agent_instructions_lines =
     [''You are a technical documentation specialist who creates professional README files for AI agent blueprints.'',
      '''',
      ''## Your Task'',
      ''Generate a README following the Problem-Approach-Capabilities structure. This format helps users quickly understand:'',
      ''1. Why this blueprint exists (The Problem)'',
      ''2. How it works (The Approach)'',
      ''3. What it can do (Capabilities)'',
      ''4. How to get started (Getting Started)'',
      '''',
      ''## Writing Guidelines'',
      '''',
      ''### Tone'',
      ''- Professional but approachable'',
      ''- Confident but not arrogant'',
      ''- Specific with concrete examples'',
      '''',
      ''### Structure'',
      ''Always use this exact structure with markdown headers:'',
      '''',
      ''## The Problem'',
      ''### The Situation'',
      ''[Describe current state without the solution - 2-3 sentences about what teams/users currently do]'',
      '''',
      ''### The Challenge'',
      ''[Explain why existing approaches fail - expertise required, consistency issues, resource constraints]'',
      '''',
      ''### What's At Stake'',
      ''[Consequences of not solving this - business, customer, and operational impact]'',
      '''',
      ''---'',
      '''',
      ''## The Approach'',
      ''### The Key Insight'',
      ''[One paragraph explaining the conceptual breakthrough]'',
      '''',
      ''### The Method'',
      ''[How the agents work together - describe coordinator and specialists, workflow sequence]'',
      '''',
      ''### Why This Works'',
      ''[Benefits: consistency, specialization, scale]'',
      '''',
      ''---'',
      '''',
      ''## Capabilities'',
      ''### Core Capabilities'',
      ''- [4-6 bullet points with specific features]'',
      '''',
      ''### Extended Capabilities'',
      ''- [3-4 additional features]'',
      '''',
      ''### Boundaries'',
      ''- [3-4 things it doesn't do - manage expectations]'',
      '''',
      ''---'',
      '''',
      ''## Getting Started'',
      ''### Prerequisites'',
      ''- [What users need - 2-3 items]'',
      '''',
      ''### Your First Run'',
      ''[A concrete, realistic example input to try]'',
      '''',
      ''### Pro Tips'',
      ''- [3-4 tips for best results]'',
      '''',
      ''## Important'',
      ''- Return ONLY the markdown content'',
      ''- Do NOT wrap in JSON or code blocks'',
      ''- Be specific with numbers and categories where possible'',
      ''- Keep each section concise but informative'']"

definition agent_config :: pyval where
  "agent_config =
     PDict (fmap_of_list
       [(''name'', PStr ''README Builder''),
        (''description'', PStr ''Generates professional README documentation for blueprints following the Problem-Approach-Capabilities structure''),
        (''model'', PStr ''groq/llama-3.3-70b-versatile''),
        (''provider_id'', PStr ''Groq''),
        (''llm_credential_id'', PStr ''lyzr_groq''),
        (''agent_role'', PStr ''Technical Documentation Specialist''),
        (''agent_goal'', PStr ''Create clear, comprehensive, and well-structured README documentation that helps users understand and effectively use AI agent blueprints''),
        (''agent_instructions'', PStr (join_lines agent_instructions_lines)),
        (''temperature'', PFloat (7 / 10)),
        (''top_p'', PFloat (9 / 10)),
        (''response_format'', PDict (fmap_of_list [(''type'', PStr ''text'')])),
        (''features'', PList []),
        (''tools'', PList []),
        (''files'', PList []),
        (''tool_configs'', PList [])])"

text \<open>
  The module level of the script:
  \<^verbatim>\<open>
  API_KEY = os.getenv("LYZR_API_KEY")
  if not API_KEY:
      print("Error: LYZR_API_KEY environment variable not set")
      print("Set it with: export LYZR_API_KEY=your_api_key")
      sys.exit(1)
  \<close>
\<close>

definition create_API_KEY :: "world \<Rightarrow> string run" where
  "create_API_KEY w =
     (case LYZR_API_KEY w of
        Some k \<Rightarrow>
          if k \<noteq> [] then ret k
          else seq_run (prints
                 [[Lit ''Error: LYZR_API_KEY environment variable not set''],
                  [Lit ''Set it with: export LYZR_API_KEY=your_api_key'']])
               (raise (SystemExit 1))
      | None \<Rightarrow>
          seq_run (prints
            [[Lit ''Error: LYZR_API_KEY environment variable not set''],
             [Lit ''Set it with: export LYZR_API_KEY=your_api_key'']])
          (raise (SystemExit 1)))"

text \<open>
  \<^verbatim>\<open>
  def create_agent():
      response = requests.post(f"{AGENT_API_URL}/v3/agents/", headers=headers, json=agent_config)
      if response.status_code != 200:
          print(f"Error creating agent: {response.status_code}")
          print(response.text)
          sys.exit(1)
      result = response.json()
      agent_id = result.get("agent_id")
      print("README Builder agent created successfully!")
      print(f"\nAgent ID: {agent_id}")
      print(f"\nAdd this to your .env.local file:")
      print(f"README_BUILDER_AGENT_ID={agent_id}")
      return agent_id
  \<close>
\<close>

definition post_request :: "string \<Rightarrow> request" where
  "post_request api_key =
     \<lparr>verb = POST, url = AGENT_API_URL @ ''/v3/agents/'',
      x_api_key = api_key, json_body = Some agent_config\<rparr>"

definition create_agent :: "world \<Rightarrow> string \<Rightarrow> pyval run" where
  "create_agent w api_key =
     bind_run (send w (post_request api_key)) (\<lambda>out.
       case out of
         NoResponse \<Rightarrow> raise TransportError
       | Returned response \<Rightarrow>
           if status_code response \<noteq> 200
           then seq_run (print [Lit ''Error creating agent: '', Fmt (PInt (int (status_code response)))])
               (seq_run (print [Lit (resp_text response)])
                        (raise (SystemExit 1)))
           else bind_run (lift (response_json response)) (\<lambda>result.
                bind_run (lift (py_get result ''agent_id'' PNone)) (\<lambda>agent_id.
                seq_run (prints
                  [[Lit ''README Builder agent created successfully!''],
                   [Lit ''\<newline>Agent ID: '', Fmt agent_id],
                   [Lit ''\<newline>Add this to your .env.local file:''],
                   [Lit ''README_BUILDER_AGENT_ID='', Fmt agent_id]])
                (ret agent_id))))"

text \<open>Running the script: the module level, then \<^verbatim>\<open>create_agent()\<close>.\<close>

definition create_script :: "world \<Rightarrow> event list \<times> (error + pyval)" where
  "create_script w = bind_run (create_API_KEY w) (\<lambda>api_key. create_agent w api_key) []"

section \<open>Properties of the feature merge\<close>

lemma memory_kind_SHORT_TERM_MEMORY_CONFIG: "memory_kind SHORT_TERM_MEMORY_CONFIG"
  by (simp add: memory_kind_def SHORT_TERM_MEMORY_CONFIG_def)

lemma py_get_type_dict:
  "is_dict f \<Longrightarrow> \<exists>t. py_get f ''type'' PNone = Inr t \<and> (py_in t MEMORY_TYPES \<longleftrightarrow> memory_kind f)"
  by (cases f)
     (auto simp: is_dict_def py_get_def dict_get_def py_in_def MEMORY_TYPES_def memory_kind_def
           split: option.splits pyval.splits)

lemma keep_non_memory_dicts:
  "\<forall>f \<in> set fs. is_dict f \<Longrightarrow> keep_non_memory fs = Inr (filter (\<lambda>f. \<not> memory_kind f) fs)"
proof (induction fs)
  case Nil
  show ?case by simp
next
  case (Cons f fs)
  from Cons.prems have "is_dict f" by simp
  then obtain t where t: "py_get f ''type'' PNone = Inr t"
    and m: "py_in t MEMORY_TYPES \<longleftrightarrow> memory_kind f"
    using py_get_type_dict by blast
  from Cons have "keep_non_memory fs = Inr (filter (\<lambda>f. \<not> memory_kind f) fs)" by simp
  with t m show ?case by simp
qed

lemma ensure_short_term_memory_dicts:
  "\<forall>f \<in> set L. is_dict f \<Longrightarrow>
     ensure_short_term_memory (PList L) =
       Inr (filter (\<lambda>f. \<not> memory_kind f) L @ [SHORT_TERM_MEMORY_CONFIG])"
  by (simp add: ensure_short_term_memory_def py_iter_def keep_non_memory_dicts)

lemma filter_memory_kind_filter_non_memory:
  "filter memory_kind (filter (\<lambda>f. \<not> memory_kind f) L) = []"
  by (induction L) auto

text \<open>
  C1. For every feature list \<open>L\<close> (a list of feature entries, each a dictionary) holding any
  number of memory-kind entries, \<^verbatim>\<open>ensure_short_term_memory\<close> returns a list that is the
  non-memory entries of \<open>L\<close>, unchanged and in their order, followed by the fixed
  short-term-memory entry: that entry is last, it is the only memory-kind entry of the
  result, and the non-memory entries of the result are those of \<open>L\<close>.
\<close>

theorem ensure_short_term_memory_one_memory_entry:
  assumes "\<forall>f \<in> set L. is_dict f"
  shows "\<exists>out. ensure_short_term_memory (PList L) = Inr out
           \<and> out = filter (\<lambda>f. \<not> memory_kind f) L @ [SHORT_TERM_MEMORY_CONFIG]
           \<and> filter memory_kind out = [SHORT_TERM_MEMORY_CONFIG]
           \<and> last out = SHORT_TERM_MEMORY_CONFIG
           \<and> filter (\<lambda>f. \<not> memory_kind f) out = filter (\<lambda>f. \<not> memory_kind f) L"
proof -
  let ?out = "filter (\<lambda>f. \<not> memory_kind f) L @ [SHORT_TERM_MEMORY_CONFIG]"
  have "ensure_short_term_memory (PList L) = Inr ?out"
    using assms by (rule ensure_short_term_memory_dicts)
  moreover have "filter memory_kind ?out = [SHORT_TERM_MEMORY_CONFIG]"
    by (simp add: filter_memory_kind_filter_non_memory memory_kind_SHORT_TERM_MEMORY_CONFIG)
  moreover have "last ?out = SHORT_TERM_MEMORY_CONFIG"
    by simp
  moreover have "filter (\<lambda>f. \<not> memory_kind f) ?out = filter (\<lambda>f. \<not> memory_kind f) L"
    by (simp add: memory_kind_SHORT_TERM_MEMORY_CONFIG)
  ultimately show ?thesis by blast
qed

theorem ensure_short_term_memory_one_memory_entry_witness:
  "list_all is_dict
      [PDict (fmap_of_list [(''type'', PStr ''memory'')]),
       PDict (fmap_of_list [(''type'', PStr ''tool''), (''priority'', PInt 3)]),
       SHORT_TERM_MEMORY_CONFIG]
   \<and> ensure_short_term_memory
        (PList [PDict (fmap_of_list [(''type'', PStr ''memory'')]),
                PDict (fmap_of_list [(''type'', PStr ''tool''), (''priority'', PInt 3)]),
                SHORT_TERM_MEMORY_CONFIG])
      = Inr [PDict (fmap_of_list [(''type'', PStr ''tool''), (''priority'', PInt 3)]),
             SHORT_TERM_MEMORY_CONFIG]"
proof -
  let ?L = "[PDict (fmap_of_list [(''type'', PStr ''memory'')]),
             PDict (fmap_of_list [(''type'', PStr ''tool''), (''priority'', PInt 3)]),
             SHORT_TERM_MEMORY_CONFIG]"
  have h: "\<forall>f \<in> set ?L. is_dict f"
    by (simp add: is_dict_def SHORT_TERM_MEMORY_CONFIG_def)
  have m: "filter (\<lambda>f. \<not> memory_kind f) ?L
             = [PDict (fmap_of_list [(''type'', PStr ''tool''), (''priority'', PInt 3)])]"
    by (simp add: memory_kind_def SHORT_TERM_MEMORY_CONFIG_def)
  from ensure_short_term_memory_one_memory_entry [OF h] m h show ?thesis
    by (auto simp: list_all_iff)
qed

end
